theory Spec2Isabelle
  imports Complex_Main "HOL-Library.Word"
begin

unbundle bit_operations_syntax

section \<open>The GNSS data interface of gnss.h\<close>

text \<open>
  The header \<^verbatim>\<open>Positioning/include/genivi/gnss.h\<close> declares enumerations and plain
  structs; it has no function. An enumeration is embedded as a datatype of its
  enumerators together with the function that gives each enumerator the integer the
  header assigns to it. The enumerators are or'ed into \<^verbatim>\<open>uint32_t\<close> fields, so the
  values are 32-bit words.
\<close>

type_synonym uint8_t = "8 word"
type_synonym int8_t = "8 word"
type_synonym uint16_t = "16 word"
type_synonym int16_t = "16 word"
type_synonym uint32_t = "32 word"
type_synonym uint64_t = "64 word"

subsection \<open>EGNSSFixStatus\<close>

datatype EGNSSFixStatus =
    GNSS_FIX_STATUS_NO
  | GNSS_FIX_STATUS_TIME
  | GNSS_FIX_STATUS_2D
  | GNSS_FIX_STATUS_3D

subsection \<open>EGNSSFixType\<close>

datatype EGNSSFixType =
    GNSS_FIX_TYPE_SINGLE_FREQUENCY
  | GNSS_FIX_TYPE_MULTI_FREQUENCY
  | GNSS_FIX_TYPE_MULTI_CONSTELLATION
  | GNSS_FIX_TYPE_PPP
  | GNSS_FIX_TYPE_INTEGRITY_CHECKED
  | GNSS_FIX_TYPE_SBAS
  | GNSS_FIX_TYPE_DGNSS
  | GNSS_FIX_TYPE_RTK_FIXED
  | GNSS_FIX_TYPE_RTK_FLOAT
  | GNSS_FIX_TYPE_SSR
  | GNSS_FIX_TYPE_ESTIMATED
  | GNSS_FIX_TYPE_DEAD_RECKONING
  | GNSS_FIX_TYPE_MANUAL
  | GNSS_FIX_TYPE_SIMULATOR_MODE

fun EGNSSFixType_val :: "EGNSSFixType \<Rightarrow> uint32_t" where
  "EGNSSFixType_val GNSS_FIX_TYPE_SINGLE_FREQUENCY    = 0x00000001"
| "EGNSSFixType_val GNSS_FIX_TYPE_MULTI_FREQUENCY     = 0x00000002"
| "EGNSSFixType_val GNSS_FIX_TYPE_MULTI_CONSTELLATION = 0x00000004"
| "EGNSSFixType_val GNSS_FIX_TYPE_PPP                 = 0x00000010"
| "EGNSSFixType_val GNSS_FIX_TYPE_INTEGRITY_CHECKED   = 0x00000020"
| "EGNSSFixType_val GNSS_FIX_TYPE_SBAS                = 0x00001000"
| "EGNSSFixType_val GNSS_FIX_TYPE_DGNSS               = 0x00002000"
| "EGNSSFixType_val GNSS_FIX_TYPE_RTK_FIXED           = 0x00004000"
| "EGNSSFixType_val GNSS_FIX_TYPE_RTK_FLOAT           = 0x00008000"
| "EGNSSFixType_val GNSS_FIX_TYPE_SSR                 = 0x00010000"
| "EGNSSFixType_val GNSS_FIX_TYPE_ESTIMATED           = 0x00100000"
| "EGNSSFixType_val GNSS_FIX_TYPE_DEAD_RECKONING      = 0x00200000"
| "EGNSSFixType_val GNSS_FIX_TYPE_MANUAL              = 0x10000000"
| "EGNSSFixType_val GNSS_FIX_TYPE_SIMULATOR_MODE      = 0x20000000"

text \<open>The enumerators in the order of their declaration.\<close>

definition EGNSSFixType_enumerators :: "EGNSSFixType list" where
  "EGNSSFixType_enumerators =
    [GNSS_FIX_TYPE_SINGLE_FREQUENCY, GNSS_FIX_TYPE_MULTI_FREQUENCY,
     GNSS_FIX_TYPE_MULTI_CONSTELLATION, GNSS_FIX_TYPE_PPP,
     GNSS_FIX_TYPE_INTEGRITY_CHECKED, GNSS_FIX_TYPE_SBAS, GNSS_FIX_TYPE_DGNSS,
     GNSS_FIX_TYPE_RTK_FIXED, GNSS_FIX_TYPE_RTK_FLOAT, GNSS_FIX_TYPE_SSR,
     GNSS_FIX_TYPE_ESTIMATED, GNSS_FIX_TYPE_DEAD_RECKONING, GNSS_FIX_TYPE_MANUAL,
     GNSS_FIX_TYPE_SIMULATOR_MODE]"

text \<open>
  The header groups the enumerators under five line comments: "Information about the
  used satellite data", "Information of improvement techniques based on the satellite
  signals", "Information about used correction data", "Information about position
  propagation" and "Information to identify artificial GNSS fixes".
\<close>

datatype EGNSSFixType_group =
    UsedSatelliteData
  | ImprovementTechniques
  | UsedCorrectionData
  | PositionPropagation
  | ArtificialFix

fun EGNSSFixType_group_of :: "EGNSSFixType \<Rightarrow> EGNSSFixType_group" where
  "EGNSSFixType_group_of GNSS_FIX_TYPE_SINGLE_FREQUENCY    = UsedSatelliteData"
| "EGNSSFixType_group_of GNSS_FIX_TYPE_MULTI_FREQUENCY     = UsedSatelliteData"
| "EGNSSFixType_group_of GNSS_FIX_TYPE_MULTI_CONSTELLATION = UsedSatelliteData"
| "EGNSSFixType_group_of GNSS_FIX_TYPE_PPP                 = ImprovementTechniques"
| "EGNSSFixType_group_of GNSS_FIX_TYPE_INTEGRITY_CHECKED   = ImprovementTechniques"
| "EGNSSFixType_group_of GNSS_FIX_TYPE_SBAS                = UsedCorrectionData"
| "EGNSSFixType_group_of GNSS_FIX_TYPE_DGNSS               = UsedCorrectionData"
| "EGNSSFixType_group_of GNSS_FIX_TYPE_RTK_FIXED           = UsedCorrectionData"
| "EGNSSFixType_group_of GNSS_FIX_TYPE_RTK_FLOAT           = UsedCorrectionData"
| "EGNSSFixType_group_of GNSS_FIX_TYPE_SSR                 = UsedCorrectionData"
| "EGNSSFixType_group_of GNSS_FIX_TYPE_ESTIMATED           = PositionPropagation"
| "EGNSSFixType_group_of GNSS_FIX_TYPE_DEAD_RECKONING      = PositionPropagation"
| "EGNSSFixType_group_of GNSS_FIX_TYPE_MANUAL              = ArtificialFix"
| "EGNSSFixType_group_of GNSS_FIX_TYPE_SIMULATOR_MODE      = ArtificialFix"

subsection \<open>EGNSSTimeScale\<close>

datatype EGNSSTimeScale =
    GNSS_TIME_SCALE_UTC
  | GNSS_TIME_SCALE_GPS

subsection \<open>EGNSSSystem\<close>

datatype EGNSSSystem =
    GNSS_SYSTEM_GPS
  | GNSS_SYSTEM_GLONASS
  | GNSS_SYSTEM_GALILEO
  | GNSS_SYSTEM_BEIDOU
  | GNSS_SYSTEM_GPS_L2
  | GNSS_SYSTEM_GPS_L5
  | GNSS_SYSTEM_GLONASS_L2
  | GNSS_SYSTEM_BEIDOU_B2
  | GNSS_SYSTEM_SBAS_WAAS
  | GNSS_SYSTEM_SBAS_EGNOS
  | GNSS_SYSTEM_SBAS_MSAS
  | GNSS_SYSTEM_SBAS_QZSS_SAIF
  | GNSS_SYSTEM_SBAS_SDCM
  | GNSS_SYSTEM_SBAS_GAGAN

fun EGNSSSystem_val :: "EGNSSSystem \<Rightarrow> uint32_t" where
  "EGNSSSystem_val GNSS_SYSTEM_GPS            = 0x00000001"
| "EGNSSSystem_val GNSS_SYSTEM_GLONASS        = 0x00000002"
| "EGNSSSystem_val GNSS_SYSTEM_GALILEO        = 0x00000004"
| "EGNSSSystem_val GNSS_SYSTEM_BEIDOU         = 0x00000008"
| "EGNSSSystem_val GNSS_SYSTEM_GPS_L2         = 0x00000010"
| "EGNSSSystem_val GNSS_SYSTEM_GPS_L5         = 0x00000020"
| "EGNSSSystem_val GNSS_SYSTEM_GLONASS_L2     = 0x00000040"
| "EGNSSSystem_val GNSS_SYSTEM_BEIDOU_B2      = 0x00000080"
| "EGNSSSystem_val GNSS_SYSTEM_SBAS_WAAS      = 0x00010000"
| "EGNSSSystem_val GNSS_SYSTEM_SBAS_EGNOS     = 0x00020000"
| "EGNSSSystem_val GNSS_SYSTEM_SBAS_MSAS      = 0x00040000"
| "EGNSSSystem_val GNSS_SYSTEM_SBAS_QZSS_SAIF = 0x00080000"
| "EGNSSSystem_val GNSS_SYSTEM_SBAS_SDCM      = 0x00100000"
| "EGNSSSystem_val GNSS_SYSTEM_SBAS_GAGAN     = 0x00200000"

definition EGNSSSystem_enumerators :: "EGNSSSystem list" where
  "EGNSSSystem_enumerators =
    [GNSS_SYSTEM_GPS, GNSS_SYSTEM_GLONASS, GNSS_SYSTEM_GALILEO, GNSS_SYSTEM_BEIDOU,
     GNSS_SYSTEM_GPS_L2, GNSS_SYSTEM_GPS_L5, GNSS_SYSTEM_GLONASS_L2,
     GNSS_SYSTEM_BEIDOU_B2, GNSS_SYSTEM_SBAS_WAAS, GNSS_SYSTEM_SBAS_EGNOS,
     GNSS_SYSTEM_SBAS_MSAS, GNSS_SYSTEM_SBAS_QZSS_SAIF, GNSS_SYSTEM_SBAS_SDCM,
     GNSS_SYSTEM_SBAS_GAGAN]"

text \<open>
  The satellite based augmentation systems are the enumerators the header names
  \<^verbatim>\<open>GNSS_SYSTEM_SBAS_...\<close>, declared below its comment "Numbers >= 0x00010000 are
  used to identify SBAS".
\<close>

fun EGNSSSystem_is_SBAS :: "EGNSSSystem \<Rightarrow> bool" where
  "EGNSSSystem_is_SBAS GNSS_SYSTEM_SBAS_WAAS      = True"
| "EGNSSSystem_is_SBAS GNSS_SYSTEM_SBAS_EGNOS     = True"
| "EGNSSSystem_is_SBAS GNSS_SYSTEM_SBAS_MSAS      = True"
| "EGNSSSystem_is_SBAS GNSS_SYSTEM_SBAS_QZSS_SAIF = True"
| "EGNSSSystem_is_SBAS GNSS_SYSTEM_SBAS_SDCM      = True"
| "EGNSSSystem_is_SBAS GNSS_SYSTEM_SBAS_GAGAN     = True"
| "EGNSSSystem_is_SBAS _                          = False"

subsection \<open>EGNSSSatelliteFlag\<close>

datatype EGNSSSatelliteFlag =
    GNSS_SATELLITE_USED
  | GNSS_SATELLITE_EPHEMERIS_AVAILABLE

fun EGNSSSatelliteFlag_val :: "EGNSSSatelliteFlag \<Rightarrow> uint32_t" where
  "EGNSSSatelliteFlag_val GNSS_SATELLITE_USED                = 0x00000001"
| "EGNSSSatelliteFlag_val GNSS_SATELLITE_EPHEMERIS_AVAILABLE = 0x00000002"

definition EGNSSSatelliteFlag_enumerators :: "EGNSSSatelliteFlag list" where
  "EGNSSSatelliteFlag_enumerators =
    [GNSS_SATELLITE_USED, GNSS_SATELLITE_EPHEMERIS_AVAILABLE]"


text \<open>
  A bit mask field holds the bitwise or of enumerators (the header: "It is a or'ed
  bitmask of the ... values"). \<open>or_mask val cs\<close> is the mask of the enumerators \<open>cs\<close>
  and \<open>mask_test m v\<close> the test of a mask against one enumerator's value.
\<close>

definition or_mask :: "('a \<Rightarrow> uint32_t) \<Rightarrow> 'a list \<Rightarrow> uint32_t" where
  "or_mask val cs = foldr (\<lambda>c m. val c OR m) cs 0"

definition mask_test :: "uint32_t \<Rightarrow> uint32_t \<Rightarrow> bool" where
  "mask_test m v = (m AND v \<noteq> 0)"

subsection \<open>EGNSSTimeValidityBits and TGNSSTime\<close>

datatype EGNSSTimeValidityBits =
    GNSS_TIME_TIME_VALID
  | GNSS_TIME_DATE_VALID
  | GNSS_TIME_SCALE_VALID
  | GNSS_TIME_LEAPSEC_VALID

fun EGNSSTimeValidityBits_val :: "EGNSSTimeValidityBits \<Rightarrow> uint32_t" where
  "EGNSSTimeValidityBits_val GNSS_TIME_TIME_VALID    = 0x00000001"
| "EGNSSTimeValidityBits_val GNSS_TIME_DATE_VALID    = 0x00000002"
| "EGNSSTimeValidityBits_val GNSS_TIME_SCALE_VALID   = 0x00000004"
| "EGNSSTimeValidityBits_val GNSS_TIME_LEAPSEC_VALID = 0x00000008"

definition EGNSSTimeValidityBits_enumerators :: "EGNSSTimeValidityBits list" where
  "EGNSSTimeValidityBits_enumerators =
    [GNSS_TIME_TIME_VALID, GNSS_TIME_DATE_VALID, GNSS_TIME_SCALE_VALID,
     GNSS_TIME_LEAPSEC_VALID]"

record TGNSSTime =
  timestamp :: uint64_t
  year :: uint16_t
  month :: uint8_t
  day :: uint8_t
  hour :: uint8_t
  minute :: uint8_t
  second :: uint8_t
  ms :: uint16_t
  scale :: EGNSSTimeScale
  leapSeconds :: int8_t
  validityBits :: uint32_t

text \<open>The members of the struct, by name, in the order of their declaration.\<close>

datatype TGNSSTime_field =
    Time_timestamp
  | Time_year
  | Time_month
  | Time_day
  | Time_hour
  | Time_minute
  | Time_second
  | Time_ms
  | Time_scale
  | Time_leapSeconds
  | Time_validityBits

text \<open>
  The members each validity bit stands for, from the comments of the enumerators:
  "Validity bit for field TGNSSTime fields hour, minute, second, ms.", "... fields year,
  month, day.", "... field scale.", "... field leapSeconds.".
\<close>

fun EGNSSTimeValidityBits_fields :: "EGNSSTimeValidityBits \<Rightarrow> TGNSSTime_field list" where
  "EGNSSTimeValidityBits_fields GNSS_TIME_TIME_VALID =
     [Time_hour, Time_minute, Time_second, Time_ms]"
| "EGNSSTimeValidityBits_fields GNSS_TIME_DATE_VALID = [Time_year, Time_month, Time_day]"
| "EGNSSTimeValidityBits_fields GNSS_TIME_SCALE_VALID = [Time_scale]"
| "EGNSSTimeValidityBits_fields GNSS_TIME_LEAPSEC_VALID = [Time_leapSeconds]"

text \<open>
  The value ranges the comments of the members give: month "Number betweeen 0 and 11",
  day "Number between 1 and 31", hour "Number between 0 and 23", minute "Number between
  0 and 59", second "Number between 0 and 59. In case of a leap second this value is
  60.", ms "Number between 0 and 999". Whether the sample falls into a leap second is
  not a member of the struct; it is the parameter \<open>leap\<close>. The header has no code that
  checks the ranges: they are the contract a producer of the struct is documented to
  keep.
\<close>

definition TGNSSTime_ranges :: "bool \<Rightarrow> TGNSSTime \<Rightarrow> bool" where
  "TGNSSTime_ranges leap t =
    (unat (month t) \<le> 11 \<and>
     1 \<le> unat (day t) \<and> unat (day t) \<le> 31 \<and>
     unat (hour t) \<le> 23 \<and>
     unat (minute t) \<le> 59 \<and>
     (if leap then unat (second t) = 60 else unat (second t) \<le> 59) \<and>
     unat (ms t) \<le> 999)"

subsection \<open>EGNSSSatelliteDetailValidityBits and TGNSSSatelliteDetail\<close>

datatype EGNSSSatelliteDetailValidityBits =
    GNSS_SATELLITE_SYSTEM_VALID
  | GNSS_SATELLITE_ID_VALID
  | GNSS_SATELLITE_AZIMUTH_VALID
  | GNSS_SATELLITE_ELEVATION_VALID
  | GNSS_SATELLITE_CNO_VALID
  | GNSS_SATELLITE_USED_VALID
  | GNSS_SATELLITE_EPHEMERIS_AVAILABLE_VALID
  | GNSS_SATELLITE_RESIDUAL_VALID

fun EGNSSSatelliteDetailValidityBits_val ::
  "EGNSSSatelliteDetailValidityBits \<Rightarrow> uint32_t" where
  "EGNSSSatelliteDetailValidityBits_val GNSS_SATELLITE_SYSTEM_VALID              = 0x00000001"
| "EGNSSSatelliteDetailValidityBits_val GNSS_SATELLITE_ID_VALID                  = 0x00000002"
| "EGNSSSatelliteDetailValidityBits_val GNSS_SATELLITE_AZIMUTH_VALID             = 0x00000004"
| "EGNSSSatelliteDetailValidityBits_val GNSS_SATELLITE_ELEVATION_VALID           = 0x00000008"
| "EGNSSSatelliteDetailValidityBits_val GNSS_SATELLITE_CNO_VALID                 = 0x00000010"
| "EGNSSSatelliteDetailValidityBits_val GNSS_SATELLITE_USED_VALID                = 0x00000020"
| "EGNSSSatelliteDetailValidityBits_val GNSS_SATELLITE_EPHEMERIS_AVAILABLE_VALID = 0x00000040"
| "EGNSSSatelliteDetailValidityBits_val GNSS_SATELLITE_RESIDUAL_VALID            = 0x00000080"

definition EGNSSSatelliteDetailValidityBits_enumerators ::
  "EGNSSSatelliteDetailValidityBits list" where
  "EGNSSSatelliteDetailValidityBits_enumerators =
    [GNSS_SATELLITE_SYSTEM_VALID, GNSS_SATELLITE_ID_VALID, GNSS_SATELLITE_AZIMUTH_VALID,
     GNSS_SATELLITE_ELEVATION_VALID, GNSS_SATELLITE_CNO_VALID, GNSS_SATELLITE_USED_VALID,
     GNSS_SATELLITE_EPHEMERIS_AVAILABLE_VALID, GNSS_SATELLITE_RESIDUAL_VALID]"

record TGNSSSatelliteDetail =
  timestamp :: uint64_t
  system :: EGNSSSystem
  satelliteId :: uint16_t
  azimuth :: uint16_t
  elevation :: uint16_t
  CNo :: uint16_t
  statusBits :: uint32_t
  posResidual :: int16_t
  validityBits :: uint32_t

datatype TGNSSSatelliteDetail_field =
    Sat_timestamp
  | Sat_system
  | Sat_satelliteId
  | Sat_azimuth
  | Sat_elevation
  | Sat_CNo
  | Sat_statusBits
  | Sat_posResidual
  | Sat_validityBits

text \<open>
  What a validity bit of the satellite detail stands for is a whole member or one
  flag of the member statusBits: the comments of the enumerators read "Validity bit for
  field TGNSSSatelliteDetail::system.", ..., "Validity bit for field
  TGNSSSatelliteDetail::statusBits::GNSS_SATELLITE_USED.", "Validity bit for field
  TGNSSSatelliteDetail::statusBits::GNSS_SATELLITE_EPHEMERIS_AVAILABLE.", ...
\<close>

datatype TGNSSSatelliteDetail_gated =
    Member TGNSSSatelliteDetail_field
  | StatusFlag EGNSSSatelliteFlag

fun EGNSSSatelliteDetailValidityBits_gated ::
  "EGNSSSatelliteDetailValidityBits \<Rightarrow> TGNSSSatelliteDetail_gated" where
  "EGNSSSatelliteDetailValidityBits_gated GNSS_SATELLITE_SYSTEM_VALID = Member Sat_system"
| "EGNSSSatelliteDetailValidityBits_gated GNSS_SATELLITE_ID_VALID = Member Sat_satelliteId"
| "EGNSSSatelliteDetailValidityBits_gated GNSS_SATELLITE_AZIMUTH_VALID = Member Sat_azimuth"
| "EGNSSSatelliteDetailValidityBits_gated GNSS_SATELLITE_ELEVATION_VALID =
     Member Sat_elevation"
| "EGNSSSatelliteDetailValidityBits_gated GNSS_SATELLITE_CNO_VALID = Member Sat_CNo"
| "EGNSSSatelliteDetailValidityBits_gated GNSS_SATELLITE_USED_VALID =
     StatusFlag GNSS_SATELLITE_USED"
| "EGNSSSatelliteDetailValidityBits_gated GNSS_SATELLITE_EPHEMERIS_AVAILABLE_VALID =
     StatusFlag GNSS_SATELLITE_EPHEMERIS_AVAILABLE"
| "EGNSSSatelliteDetailValidityBits_gated GNSS_SATELLITE_RESIDUAL_VALID =
     Member Sat_posResidual"

text \<open>The member of the struct a gated item lives in.\<close>

fun TGNSSSatelliteDetail_gated_field ::
  "TGNSSSatelliteDetail_gated \<Rightarrow> TGNSSSatelliteDetail_field" where
  "TGNSSSatelliteDetail_gated_field (Member f) = f"
| "TGNSSSatelliteDetail_gated_field (StatusFlag _) = Sat_statusBits"

text \<open>
  The value ranges the comments of the members give: azimuth "Value range 0..359",
  elevation "Value range 0..90", CNo "Range 0 to 99, 0 when not tracking", posResidual
  "Range -999 to +999, 0 if not tracking". Whether the satellite is tracked is not a
  member of the struct; it is the parameter \<open>tracking\<close>. posResidual is an
  \<^verbatim>\<open>int16_t\<close>, read as two's complement.
\<close>

definition TGNSSSatelliteDetail_ranges :: "bool \<Rightarrow> TGNSSSatelliteDetail \<Rightarrow> bool" where
  "TGNSSSatelliteDetail_ranges tracking d =
    (unat (azimuth d) \<le> 359 \<and>
     unat (elevation d) \<le> 90 \<and>
     unat (CNo d) \<le> 99 \<and> (tracking \<or> unat (CNo d) = 0) \<and>
     - 999 \<le> sint (posResidual d) \<and> sint (posResidual d) \<le> 999 \<and>
     (tracking \<or> sint (posResidual d) = 0))"

subsection \<open>Floating point members\<close>

text \<open>
  The members of type \<^verbatim>\<open>float\<close> and \<^verbatim>\<open>double\<close> are embedded by their bits, in the
  IEEE 754 binary32 and binary64 interchange formats. \<open>float_valof\<close> reads a binary32
  pattern: bit 31 is the sign, bits 30 to 23 the biased exponent \<open>e\<close> and bits 22 to 0
  the fraction \<open>f\<close>. An exponent of 255 is an infinity or a NaN (no number), an
  exponent of 0 a subnormal number \<open>f * 2^(-149)\<close>, and any other exponent the normal
  number \<open>(2^23 + f) * 2^(e - 150)\<close>.
\<close>

type_synonym float32 = "32 word"
type_synonym float64 = "64 word"

definition float_exponent :: "float32 \<Rightarrow> nat" where
  "float_exponent w = unat (drop_bit 23 w AND 0xFF)"

definition float_fraction :: "float32 \<Rightarrow> nat" where
  "float_fraction w = unat (w AND 0x7FFFFF)"

definition float_magnitude :: "float32 \<Rightarrow> real" where
  "float_magnitude w =
    (let e = float_exponent w; f = float_fraction w in
     if e = 0 then real f / 2 ^ 149
     else if 150 \<le> e then real (2 ^ 23 + f) * 2 ^ (e - 150)
     else real (2 ^ 23 + f) / 2 ^ (150 - e))"

definition float_valof :: "float32 \<Rightarrow> real option" where
  "float_valof w =
    (if float_exponent w = 255 then None
     else if bit w 31 then Some (- float_magnitude w)
     else Some (float_magnitude w))"

subsection \<open>EGNSSPositionValidityBits and TGNSSPosition\<close>

datatype EGNSSPositionValidityBits =
    GNSS_POSITION_LATITUDE_VALID
  | GNSS_POSITION_LONGITUDE_VALID
  | GNSS_POSITION_ALTITUDEMSL_VALID
  | GNSS_POSITION_ALTITUDEELL_VALID
  | GNSS_POSITION_HSPEED_VALID
  | GNSS_POSITION_VSPEED_VALID
  | GNSS_POSITION_HEADING_VALID
  | GNSS_POSITION_PDOP_VALID
  | GNSS_POSITION_HDOP_VALID
  | GNSS_POSITION_VDOP_VALID
  | GNSS_POSITION_USAT_VALID
  | GNSS_POSITION_TSAT_VALID
  | GNSS_POSITION_VSAT_VALID
  | GNSS_POSITION_SHPOS_VALID
  | GNSS_POSITION_SALT_VALID
  | GNSS_POSITION_SHSPEED_VALID
  | GNSS_POSITION_SVSPEED_VALID
  | GNSS_POSITION_SHEADING_VALID
  | GNSS_POSITION_STAT_VALID
  | GNSS_POSITION_TYPE_VALID
  | GNSS_POSITION_ASYS_VALID
  | GNSS_POSITION_USYS_VALID
  | GNSS_POSITION_CORRAGE_VALID

fun EGNSSPositionValidityBits_val :: "EGNSSPositionValidityBits \<Rightarrow> uint32_t" where
  "EGNSSPositionValidityBits_val GNSS_POSITION_LATITUDE_VALID    = 0x00000001"
| "EGNSSPositionValidityBits_val GNSS_POSITION_LONGITUDE_VALID   = 0x00000002"
| "EGNSSPositionValidityBits_val GNSS_POSITION_ALTITUDEMSL_VALID = 0x00000004"
| "EGNSSPositionValidityBits_val GNSS_POSITION_ALTITUDEELL_VALID = 0x00000008"
| "EGNSSPositionValidityBits_val GNSS_POSITION_HSPEED_VALID      = 0x00000010"
| "EGNSSPositionValidityBits_val GNSS_POSITION_VSPEED_VALID      = 0x00000020"
| "EGNSSPositionValidityBits_val GNSS_POSITION_HEADING_VALID     = 0x00000040"
| "EGNSSPositionValidityBits_val GNSS_POSITION_PDOP_VALID        = 0x00000080"
| "EGNSSPositionValidityBits_val GNSS_POSITION_HDOP_VALID        = 0x00000100"
| "EGNSSPositionValidityBits_val GNSS_POSITION_VDOP_VALID        = 0x00000200"
| "EGNSSPositionValidityBits_val GNSS_POSITION_USAT_VALID        = 0x00000400"
| "EGNSSPositionValidityBits_val GNSS_POSITION_TSAT_VALID        = 0x00000800"
| "EGNSSPositionValidityBits_val GNSS_POSITION_VSAT_VALID        = 0x00001000"
| "EGNSSPositionValidityBits_val GNSS_POSITION_SHPOS_VALID       = 0x00002000"
| "EGNSSPositionValidityBits_val GNSS_POSITION_SALT_VALID        = 0x00004000"
| "EGNSSPositionValidityBits_val GNSS_POSITION_SHSPEED_VALID     = 0x00008000"
| "EGNSSPositionValidityBits_val GNSS_POSITION_SVSPEED_VALID     = 0x00010000"
| "EGNSSPositionValidityBits_val GNSS_POSITION_SHEADING_VALID    = 0x00020000"
| "EGNSSPositionValidityBits_val GNSS_POSITION_STAT_VALID        = 0x00040000"
| "EGNSSPositionValidityBits_val GNSS_POSITION_TYPE_VALID        = 0x00080000"
| "EGNSSPositionValidityBits_val GNSS_POSITION_ASYS_VALID        = 0x00100000"
| "EGNSSPositionValidityBits_val GNSS_POSITION_USYS_VALID        = 0x00200000"
| "EGNSSPositionValidityBits_val GNSS_POSITION_CORRAGE_VALID     = 0x00400000"

definition EGNSSPositionValidityBits_enumerators :: "EGNSSPositionValidityBits list" where
  "EGNSSPositionValidityBits_enumerators =
    [GNSS_POSITION_LATITUDE_VALID, GNSS_POSITION_LONGITUDE_VALID,
     GNSS_POSITION_ALTITUDEMSL_VALID, GNSS_POSITION_ALTITUDEELL_VALID,
     GNSS_POSITION_HSPEED_VALID, GNSS_POSITION_VSPEED_VALID,
     GNSS_POSITION_HEADING_VALID, GNSS_POSITION_PDOP_VALID, GNSS_POSITION_HDOP_VALID,
     GNSS_POSITION_VDOP_VALID, GNSS_POSITION_USAT_VALID, GNSS_POSITION_TSAT_VALID,
     GNSS_POSITION_VSAT_VALID, GNSS_POSITION_SHPOS_VALID, GNSS_POSITION_SALT_VALID,
     GNSS_POSITION_SHSPEED_VALID, GNSS_POSITION_SVSPEED_VALID,
     GNSS_POSITION_SHEADING_VALID, GNSS_POSITION_STAT_VALID, GNSS_POSITION_TYPE_VALID,
     GNSS_POSITION_ASYS_VALID, GNSS_POSITION_USYS_VALID, GNSS_POSITION_CORRAGE_VALID]"

record TGNSSPosition =
  timestamp :: uint64_t
  latitude :: float64
  longitude :: float64
  altitudeMSL :: float32
  altitudeEll :: float32
  hSpeed :: float32
  vSpeed :: float32
  heading :: float32
  pdop :: float32
  hdop :: float32
  vdop :: float32
  usedSatellites :: uint16_t
  trackedSatellites :: uint16_t
  visibleSatellites :: uint16_t
  sigmaHPosition :: float32
  sigmaAltitude :: float32
  sigmaHSpeed :: float32
  sigmaVSpeed :: float32
  sigmaHeading :: float32
  fixStatus :: EGNSSFixStatus
  fixTypeBits :: uint32_t
  activatedSystems :: uint32_t
  usedSystems :: uint32_t
  correctionAge :: uint16_t
  validityBits :: uint32_t

datatype TGNSSPosition_field =
    Pos_timestamp
  | Pos_latitude
  | Pos_longitude
  | Pos_altitudeMSL
  | Pos_altitudeEll
  | Pos_hSpeed
  | Pos_vSpeed
  | Pos_heading
  | Pos_pdop
  | Pos_hdop
  | Pos_vdop
  | Pos_usedSatellites
  | Pos_trackedSatellites
  | Pos_visibleSatellites
  | Pos_sigmaHPosition
  | Pos_sigmaAltitude
  | Pos_sigmaHSpeed
  | Pos_sigmaVSpeed
  | Pos_sigmaHeading
  | Pos_fixStatus
  | Pos_fixTypeBits
  | Pos_activatedSystems
  | Pos_usedSystems
  | Pos_correctionAge
  | Pos_validityBits

text \<open>
  The member each validity bit stands for, from the comments of the enumerators
  ("Validity bit for field TGNSSPosition::latitude." and so on).
\<close>

fun EGNSSPositionValidityBits_field ::
  "EGNSSPositionValidityBits \<Rightarrow> TGNSSPosition_field" where
  "EGNSSPositionValidityBits_field GNSS_POSITION_LATITUDE_VALID    = Pos_latitude"
| "EGNSSPositionValidityBits_field GNSS_POSITION_LONGITUDE_VALID   = Pos_longitude"
| "EGNSSPositionValidityBits_field GNSS_POSITION_ALTITUDEMSL_VALID = Pos_altitudeMSL"
| "EGNSSPositionValidityBits_field GNSS_POSITION_ALTITUDEELL_VALID = Pos_altitudeEll"
| "EGNSSPositionValidityBits_field GNSS_POSITION_HSPEED_VALID      = Pos_hSpeed"
| "EGNSSPositionValidityBits_field GNSS_POSITION_VSPEED_VALID      = Pos_vSpeed"
| "EGNSSPositionValidityBits_field GNSS_POSITION_HEADING_VALID     = Pos_heading"
| "EGNSSPositionValidityBits_field GNSS_POSITION_PDOP_VALID        = Pos_pdop"
| "EGNSSPositionValidityBits_field GNSS_POSITION_HDOP_VALID        = Pos_hdop"
| "EGNSSPositionValidityBits_field GNSS_POSITION_VDOP_VALID        = Pos_vdop"
| "EGNSSPositionValidityBits_field GNSS_POSITION_USAT_VALID        = Pos_usedSatellites"
| "EGNSSPositionValidityBits_field GNSS_POSITION_TSAT_VALID        = Pos_trackedSatellites"
| "EGNSSPositionValidityBits_field GNSS_POSITION_VSAT_VALID        = Pos_visibleSatellites"
| "EGNSSPositionValidityBits_field GNSS_POSITION_SHPOS_VALID       = Pos_sigmaHPosition"
| "EGNSSPositionValidityBits_field GNSS_POSITION_SALT_VALID        = Pos_sigmaAltitude"
| "EGNSSPositionValidityBits_field GNSS_POSITION_SHSPEED_VALID     = Pos_sigmaHSpeed"
| "EGNSSPositionValidityBits_field GNSS_POSITION_SVSPEED_VALID     = Pos_sigmaVSpeed"
| "EGNSSPositionValidityBits_field GNSS_POSITION_SHEADING_VALID    = Pos_sigmaHeading"
| "EGNSSPositionValidityBits_field GNSS_POSITION_STAT_VALID        = Pos_fixStatus"
| "EGNSSPositionValidityBits_field GNSS_POSITION_TYPE_VALID        = Pos_fixTypeBits"
| "EGNSSPositionValidityBits_field GNSS_POSITION_ASYS_VALID        = Pos_activatedSystems"
| "EGNSSPositionValidityBits_field GNSS_POSITION_USYS_VALID        = Pos_usedSystems"
| "EGNSSPositionValidityBits_field GNSS_POSITION_CORRAGE_VALID     = Pos_correctionAge"

text \<open>
  The only statement of the header on the values of heading is its comment "GNSS
  course angle [degree] (0 => north, 90 => east, 180 => south, 270 => west, no negative
  values)": the member holds a number, and the number is not negative.
\<close>

definition TGNSSPosition_heading_documented :: "TGNSSPosition \<Rightarrow> bool" where
  "TGNSSPosition_heading_documented p =
    (case float_valof (heading p) of None \<Rightarrow> False | Some h \<Rightarrow> 0 \<le> h)"

text \<open>
  The comment of pdop reads "[Note: pdop^2 = hdop^2+vdop^2]". The identity, on the
  numbers the three members hold:
\<close>

definition TGNSSPosition_dop_identity :: "TGNSSPosition \<Rightarrow> bool" where
  "TGNSSPosition_dop_identity p =
    (case (float_valof (pdop p), float_valof (hdop p), float_valof (vdop p)) of
       (Some pv, Some hv, Some vv) \<Rightarrow> pv ^ 2 = hv ^ 2 + vv ^ 2
     | _ \<Rightarrow> False)"

text \<open>
  "Must be checked before usage": a member of a position is valid when its bit is set
  in validityBits.
\<close>

definition TGNSSPosition_valid :: "TGNSSPosition \<Rightarrow> EGNSSPositionValidityBits \<Rightarrow> bool" where
  "TGNSSPosition_valid p c =
    mask_test (TGNSSPosition.validityBits p) (EGNSSPositionValidityBits_val c)"

definition TGNSSSatelliteDetail_valid ::
  "TGNSSSatelliteDetail \<Rightarrow> EGNSSSatelliteDetailValidityBits \<Rightarrow> bool" where
  "TGNSSSatelliteDetail_valid d c =
    mask_test (TGNSSSatelliteDetail.validityBits d) (EGNSSSatelliteDetailValidityBits_val c)"

definition TGNSSPosition_fields :: "TGNSSPosition_field list" where
  "TGNSSPosition_fields =
    [Pos_timestamp, Pos_latitude, Pos_longitude, Pos_altitudeMSL, Pos_altitudeEll,
     Pos_hSpeed, Pos_vSpeed, Pos_heading, Pos_pdop, Pos_hdop, Pos_vdop,
     Pos_usedSatellites, Pos_trackedSatellites, Pos_visibleSatellites,
     Pos_sigmaHPosition, Pos_sigmaAltitude, Pos_sigmaHSpeed, Pos_sigmaVSpeed,
     Pos_sigmaHeading, Pos_fixStatus, Pos_fixTypeBits, Pos_activatedSystems,
     Pos_usedSystems, Pos_correctionAge, Pos_validityBits]"

text \<open>
  The claim on heading, in the words of the specification: "heading in [0,360) with no
  negative values".
\<close>

definition spec_heading_in_range :: "TGNSSPosition \<Rightarrow> bool" where
  "spec_heading_in_range p =
    (case float_valof (heading p) of None \<Rightarrow> False | Some h \<Rightarrow> 0 \<le> h \<and> h < 360)"

subsection \<open>Sample values\<close>

text \<open>The last second of 30 June 2015, a leap second: 23:59:60 UTC.\<close>

definition leap_second_time :: TGNSSTime where
  "leap_second_time =
    \<lparr>TGNSSTime.timestamp = 0, year = 2015, month = 5, day = 30, hour = 23, minute = 59,
     second = 60, ms = 0, scale = GNSS_TIME_SCALE_UTC, leapSeconds = 16,
     TGNSSTime.validityBits = 0x0000000F\<rparr>"

text \<open>
  A tracked satellite at the upper ends of the documented ranges, with a position
  residual of -999 (the 16-bit pattern 0xFC19).
\<close>

definition tracked_satellite :: TGNSSSatelliteDetail where
  "tracked_satellite =
    \<lparr>TGNSSSatelliteDetail.timestamp = 0, system = GNSS_SYSTEM_GPS, satelliteId = 1,
     azimuth = 359, elevation = 90, CNo = 99, statusBits = 0x00000003,
     posResidual = 0xFC19, TGNSSSatelliteDetail.validityBits = 0x000000FF\<rparr>"

text \<open>A position with every member zero.\<close>

definition TGNSSPosition_zeroed :: TGNSSPosition where
  "TGNSSPosition_zeroed =
    \<lparr>TGNSSPosition.timestamp = 0, latitude = 0, longitude = 0, altitudeMSL = 0,
     altitudeEll = 0, hSpeed = 0, vSpeed = 0, heading = 0, pdop = 0, hdop = 0, vdop = 0,
     usedSatellites = 0, trackedSatellites = 0, visibleSatellites = 0,
     sigmaHPosition = 0, sigmaAltitude = 0, sigmaHSpeed = 0, sigmaVSpeed = 0,
     sigmaHeading = 0, fixStatus = GNSS_FIX_STATUS_NO, fixTypeBits = 0,
     activatedSystems = 0, usedSystems = 0, correctionAge = 0,
     TGNSSPosition.validityBits = 0\<rparr>"

text \<open>
  Headings of 270 and of 360 degrees (the binary32 patterns 0x43870000 and
  0x43B40000), each marked valid.
\<close>

definition heading_270_position :: TGNSSPosition where
  "heading_270_position =
    TGNSSPosition_zeroed\<lparr>heading := 0x43870000, TGNSSPosition.validityBits := 0x00000040\<rparr>"

definition heading_360_position :: TGNSSPosition where
  "heading_360_position =
    TGNSSPosition_zeroed\<lparr>heading := 0x43B40000, TGNSSPosition.validityBits := 0x00000040\<rparr>"

text \<open>
  A position whose three dilutions of precision are all 1.0 (the binary32 pattern
  0x3F800000), with the validity bits of pdop, hdop and vdop set (0x80, 0x100, 0x200).
\<close>

definition unit_dop_position :: TGNSSPosition where
  "unit_dop_position =
    TGNSSPosition_zeroed\<lparr>pdop := 0x3F800000, hdop := 0x3F800000, vdop := 0x3F800000,
      TGNSSPosition.validityBits := 0x00000380\<rparr>"

section \<open>Properties of the enumerations\<close>

lemmas float_defs =
  float_valof_def float_magnitude_def float_exponent_def float_fraction_def Let_def

text \<open>
  When the values of the enumerators are pairwise disjoint and none is zero, testing the
  mask of a list of enumerators against an enumerator tells whether the list holds it.
\<close>

lemma or_mask_test:
  assumes disj: "\<And>c d. val c AND val d = (if c = d then val c else 0)"
    and nz: "\<And>c. val c \<noteq> 0"
  shows "mask_test (or_mask val cs) (val c) = (c \<in> set cs)"
proof (induction cs)
  case Nil
  show ?case by (simp add: or_mask_def mask_test_def)
next
  case (Cons a cs)
  have "(val a OR or_mask val cs) AND val c = (val a AND val c) OR (or_mask val cs AND val c)"
    by (simp add: bit.conj_disj_distrib2)
  then show ?case
    using Cons disj [of a c] nz [of a]
    by (auto simp add: or_mask_def mask_test_def)
qed

subsection \<open>EGNSSFixType\<close>

lemma EGNSSFixType_UNIV: "UNIV = set EGNSSFixType_enumerators"
proof -
  have "c \<in> set EGNSSFixType_enumerators" for c
    by (cases c) (simp_all add: EGNSSFixType_enumerators_def)
  then show ?thesis by blast
qed

lemma EGNSSFixType_enumerators_distinct: "distinct EGNSSFixType_enumerators"
  by (simp add: EGNSSFixType_enumerators_def)

lemma EGNSSFixType_card: "card (UNIV :: EGNSSFixType set) = 14"
  unfolding EGNSSFixType_UNIV
  using distinct_card [OF EGNSSFixType_enumerators_distinct]
  by (simp add: EGNSSFixType_enumerators_def)

lemma EGNSSFixType_val_single_bit: "\<exists>k<32. EGNSSFixType_val c = 2 ^ k"
proof -
  define k :: nat where "k = (case c of
      GNSS_FIX_TYPE_SINGLE_FREQUENCY \<Rightarrow> 0
    | GNSS_FIX_TYPE_MULTI_FREQUENCY \<Rightarrow> 1
    | GNSS_FIX_TYPE_MULTI_CONSTELLATION \<Rightarrow> 2
    | GNSS_FIX_TYPE_PPP \<Rightarrow> 4 | GNSS_FIX_TYPE_INTEGRITY_CHECKED \<Rightarrow> 5
    | GNSS_FIX_TYPE_SBAS \<Rightarrow> 12 | GNSS_FIX_TYPE_DGNSS \<Rightarrow> 13
    | GNSS_FIX_TYPE_RTK_FIXED \<Rightarrow> 14 | GNSS_FIX_TYPE_RTK_FLOAT \<Rightarrow> 15
    | GNSS_FIX_TYPE_SSR \<Rightarrow> 16 | GNSS_FIX_TYPE_ESTIMATED \<Rightarrow> 20
    | GNSS_FIX_TYPE_DEAD_RECKONING \<Rightarrow> 21
    | GNSS_FIX_TYPE_MANUAL \<Rightarrow> 28
    | GNSS_FIX_TYPE_SIMULATOR_MODE \<Rightarrow> 29)"
  have "k < 32 \<and> EGNSSFixType_val c = 2 ^ k"
    unfolding k_def by (cases c) simp_all
  then show ?thesis by blast
qed

lemma EGNSSFixType_val_inj: "inj EGNSSFixType_val"
proof (rule injI)
  fix c d
  assume "EGNSSFixType_val c = EGNSSFixType_val d"
  then show "c = d" by (cases c; cases d) simp_all
qed

lemma EGNSSFixType_val_AND:
  "EGNSSFixType_val c AND EGNSSFixType_val d = (if c = d then EGNSSFixType_val c else 0)"
  by (cases c; cases d) simp_all

lemma EGNSSFixType_val_nonzero: "EGNSSFixType_val c \<noteq> 0"
  by (cases c) simp_all

lemma EGNSSFixType_mask_test:
  "mask_test (or_mask EGNSSFixType_val cs) (EGNSSFixType_val c) = (c \<in> set cs)"
  by (rule or_mask_test [OF EGNSSFixType_val_AND EGNSSFixType_val_nonzero])

subsection \<open>EGNSSSystem\<close>

lemma EGNSSSystem_UNIV: "UNIV = set EGNSSSystem_enumerators"
proof -
  have "c \<in> set EGNSSSystem_enumerators" for c
    by (cases c) (simp_all add: EGNSSSystem_enumerators_def)
  then show ?thesis by blast
qed

lemma EGNSSSystem_enumerators_distinct: "distinct EGNSSSystem_enumerators"
  by (simp add: EGNSSSystem_enumerators_def)

lemma EGNSSSystem_card: "card (UNIV :: EGNSSSystem set) = 14"
  unfolding EGNSSSystem_UNIV
  using distinct_card [OF EGNSSSystem_enumerators_distinct]
  by (simp add: EGNSSSystem_enumerators_def)

lemma EGNSSSystem_val_single_bit: "\<exists>k<32. EGNSSSystem_val c = 2 ^ k"
proof -
  define k :: nat where "k = (case c of
      GNSS_SYSTEM_GPS \<Rightarrow> 0 | GNSS_SYSTEM_GLONASS \<Rightarrow> 1
    | GNSS_SYSTEM_GALILEO \<Rightarrow> 2 | GNSS_SYSTEM_BEIDOU \<Rightarrow> 3
    | GNSS_SYSTEM_GPS_L2 \<Rightarrow> 4 | GNSS_SYSTEM_GPS_L5 \<Rightarrow> 5
    | GNSS_SYSTEM_GLONASS_L2 \<Rightarrow> 6 | GNSS_SYSTEM_BEIDOU_B2 \<Rightarrow> 7
    | GNSS_SYSTEM_SBAS_WAAS \<Rightarrow> 16 | GNSS_SYSTEM_SBAS_EGNOS \<Rightarrow> 17
    | GNSS_SYSTEM_SBAS_MSAS \<Rightarrow> 18
    | GNSS_SYSTEM_SBAS_QZSS_SAIF \<Rightarrow> 19
    | GNSS_SYSTEM_SBAS_SDCM \<Rightarrow> 20 | GNSS_SYSTEM_SBAS_GAGAN \<Rightarrow> 21)"
  have "k < 32 \<and> EGNSSSystem_val c = 2 ^ k"
    unfolding k_def by (cases c) simp_all
  then show ?thesis by blast
qed

lemma EGNSSSystem_val_inj: "inj EGNSSSystem_val"
proof (rule injI)
  fix c d
  assume "EGNSSSystem_val c = EGNSSSystem_val d"
  then show "c = d" by (cases c; cases d) simp_all
qed

lemma EGNSSSystem_val_AND:
  "EGNSSSystem_val c AND EGNSSSystem_val d = (if c = d then EGNSSSystem_val c else 0)"
  by (cases c; cases d) simp_all

lemma EGNSSSystem_val_nonzero: "EGNSSSystem_val c \<noteq> 0"
  by (cases c) simp_all

lemma EGNSSSystem_mask_test:
  "mask_test (or_mask EGNSSSystem_val cs) (EGNSSSystem_val c) = (c \<in> set cs)"
  by (rule or_mask_test [OF EGNSSSystem_val_AND EGNSSSystem_val_nonzero])

subsection \<open>EGNSSSatelliteFlag\<close>

lemma EGNSSSatelliteFlag_UNIV: "UNIV = set EGNSSSatelliteFlag_enumerators"
proof -
  have "c \<in> set EGNSSSatelliteFlag_enumerators" for c
    by (cases c) (simp_all add: EGNSSSatelliteFlag_enumerators_def)
  then show ?thesis by blast
qed

lemma EGNSSSatelliteFlag_enumerators_distinct: "distinct EGNSSSatelliteFlag_enumerators"
  by (simp add: EGNSSSatelliteFlag_enumerators_def)

lemma EGNSSSatelliteFlag_card: "card (UNIV :: EGNSSSatelliteFlag set) = 2"
  unfolding EGNSSSatelliteFlag_UNIV
  using distinct_card [OF EGNSSSatelliteFlag_enumerators_distinct]
  by (simp add: EGNSSSatelliteFlag_enumerators_def)

lemma EGNSSSatelliteFlag_val_single_bit: "\<exists>k<32. EGNSSSatelliteFlag_val c = 2 ^ k"
proof -
  define k :: nat where "k = (case c of
      GNSS_SATELLITE_USED \<Rightarrow> 0
    | GNSS_SATELLITE_EPHEMERIS_AVAILABLE \<Rightarrow> 1)"
  have "k < 32 \<and> EGNSSSatelliteFlag_val c = 2 ^ k"
    unfolding k_def by (cases c) simp_all
  then show ?thesis by blast
qed

lemma EGNSSSatelliteFlag_val_inj: "inj EGNSSSatelliteFlag_val"
proof (rule injI)
  fix c d
  assume "EGNSSSatelliteFlag_val c = EGNSSSatelliteFlag_val d"
  then show "c = d" by (cases c; cases d) simp_all
qed

lemma EGNSSSatelliteFlag_val_AND:
  "EGNSSSatelliteFlag_val c AND EGNSSSatelliteFlag_val d = (if c = d then EGNSSSatelliteFlag_val c else 0)"
  by (cases c; cases d) simp_all

lemma EGNSSSatelliteFlag_val_nonzero: "EGNSSSatelliteFlag_val c \<noteq> 0"
  by (cases c) simp_all

lemma EGNSSSatelliteFlag_mask_test:
  "mask_test (or_mask EGNSSSatelliteFlag_val cs) (EGNSSSatelliteFlag_val c) = (c \<in> set cs)"
  by (rule or_mask_test [OF EGNSSSatelliteFlag_val_AND EGNSSSatelliteFlag_val_nonzero])

subsection \<open>EGNSSTimeValidityBits\<close>

lemma EGNSSTimeValidityBits_UNIV: "UNIV = set EGNSSTimeValidityBits_enumerators"
proof -
  have "c \<in> set EGNSSTimeValidityBits_enumerators" for c
    by (cases c) (simp_all add: EGNSSTimeValidityBits_enumerators_def)
  then show ?thesis by blast
qed

lemma EGNSSTimeValidityBits_enumerators_distinct: "distinct EGNSSTimeValidityBits_enumerators"
  by (simp add: EGNSSTimeValidityBits_enumerators_def)

lemma EGNSSTimeValidityBits_card: "card (UNIV :: EGNSSTimeValidityBits set) = 4"
  unfolding EGNSSTimeValidityBits_UNIV
  using distinct_card [OF EGNSSTimeValidityBits_enumerators_distinct]
  by (simp add: EGNSSTimeValidityBits_enumerators_def)

lemma EGNSSTimeValidityBits_val_single_bit: "\<exists>k<32. EGNSSTimeValidityBits_val c = 2 ^ k"
proof -
  define k :: nat where "k = (case c of
      GNSS_TIME_TIME_VALID \<Rightarrow> 0 | GNSS_TIME_DATE_VALID \<Rightarrow> 1
    | GNSS_TIME_SCALE_VALID \<Rightarrow> 2 | GNSS_TIME_LEAPSEC_VALID \<Rightarrow> 3)"
  have "k < 32 \<and> EGNSSTimeValidityBits_val c = 2 ^ k"
    unfolding k_def by (cases c) simp_all
  then show ?thesis by blast
qed

lemma EGNSSTimeValidityBits_val_inj: "inj EGNSSTimeValidityBits_val"
proof (rule injI)
  fix c d
  assume "EGNSSTimeValidityBits_val c = EGNSSTimeValidityBits_val d"
  then show "c = d" by (cases c; cases d) simp_all
qed

lemma EGNSSTimeValidityBits_val_AND:
  "EGNSSTimeValidityBits_val c AND EGNSSTimeValidityBits_val d = (if c = d then EGNSSTimeValidityBits_val c else 0)"
  by (cases c; cases d) simp_all

lemma EGNSSTimeValidityBits_val_nonzero: "EGNSSTimeValidityBits_val c \<noteq> 0"
  by (cases c) simp_all

lemma EGNSSTimeValidityBits_mask_test:
  "mask_test (or_mask EGNSSTimeValidityBits_val cs) (EGNSSTimeValidityBits_val c) = (c \<in> set cs)"
  by (rule or_mask_test [OF EGNSSTimeValidityBits_val_AND EGNSSTimeValidityBits_val_nonzero])

subsection \<open>EGNSSSatelliteDetailValidityBits\<close>

lemma EGNSSSatelliteDetailValidityBits_UNIV: "UNIV = set EGNSSSatelliteDetailValidityBits_enumerators"
proof -
  have "c \<in> set EGNSSSatelliteDetailValidityBits_enumerators" for c
    by (cases c) (simp_all add: EGNSSSatelliteDetailValidityBits_enumerators_def)
  then show ?thesis by blast
qed

lemma EGNSSSatelliteDetailValidityBits_enumerators_distinct: "distinct EGNSSSatelliteDetailValidityBits_enumerators"
  by (simp add: EGNSSSatelliteDetailValidityBits_enumerators_def)

lemma EGNSSSatelliteDetailValidityBits_card: "card (UNIV :: EGNSSSatelliteDetailValidityBits set) = 8"
  unfolding EGNSSSatelliteDetailValidityBits_UNIV
  using distinct_card [OF EGNSSSatelliteDetailValidityBits_enumerators_distinct]
  by (simp add: EGNSSSatelliteDetailValidityBits_enumerators_def)

lemma EGNSSSatelliteDetailValidityBits_val_single_bit: "\<exists>k<32. EGNSSSatelliteDetailValidityBits_val c = 2 ^ k"
proof -
  define k :: nat where "k = (case c of
      GNSS_SATELLITE_SYSTEM_VALID \<Rightarrow> 0
    | GNSS_SATELLITE_ID_VALID \<Rightarrow> 1
    | GNSS_SATELLITE_AZIMUTH_VALID \<Rightarrow> 2
    | GNSS_SATELLITE_ELEVATION_VALID \<Rightarrow> 3
    | GNSS_SATELLITE_CNO_VALID \<Rightarrow> 4
    | GNSS_SATELLITE_USED_VALID \<Rightarrow> 5
    | GNSS_SATELLITE_EPHEMERIS_AVAILABLE_VALID \<Rightarrow> 6
    | GNSS_SATELLITE_RESIDUAL_VALID \<Rightarrow> 7)"
  have "k < 32 \<and> EGNSSSatelliteDetailValidityBits_val c = 2 ^ k"
    unfolding k_def by (cases c) simp_all
  then show ?thesis by blast
qed

lemma EGNSSSatelliteDetailValidityBits_val_inj: "inj EGNSSSatelliteDetailValidityBits_val"
proof (rule injI)
  fix c d
  assume "EGNSSSatelliteDetailValidityBits_val c = EGNSSSatelliteDetailValidityBits_val d"
  then show "c = d" by (cases c; cases d) simp_all
qed

lemma EGNSSSatelliteDetailValidityBits_val_AND:
  "EGNSSSatelliteDetailValidityBits_val c AND EGNSSSatelliteDetailValidityBits_val d = (if c = d then EGNSSSatelliteDetailValidityBits_val c else 0)"
  by (cases c; cases d) simp_all

lemma EGNSSSatelliteDetailValidityBits_val_nonzero: "EGNSSSatelliteDetailValidityBits_val c \<noteq> 0"
  by (cases c) simp_all

lemma EGNSSSatelliteDetailValidityBits_mask_test:
  "mask_test (or_mask EGNSSSatelliteDetailValidityBits_val cs) (EGNSSSatelliteDetailValidityBits_val c) = (c \<in> set cs)"
  by (rule or_mask_test [OF EGNSSSatelliteDetailValidityBits_val_AND EGNSSSatelliteDetailValidityBits_val_nonzero])

subsection \<open>EGNSSPositionValidityBits\<close>

lemma EGNSSPositionValidityBits_UNIV: "UNIV = set EGNSSPositionValidityBits_enumerators"
proof -
  have "c \<in> set EGNSSPositionValidityBits_enumerators" for c
    by (cases c) (simp_all add: EGNSSPositionValidityBits_enumerators_def)
  then show ?thesis by blast
qed

lemma EGNSSPositionValidityBits_enumerators_distinct: "distinct EGNSSPositionValidityBits_enumerators"
  by (simp add: EGNSSPositionValidityBits_enumerators_def)

lemma EGNSSPositionValidityBits_card: "card (UNIV :: EGNSSPositionValidityBits set) = 23"
  unfolding EGNSSPositionValidityBits_UNIV
  using distinct_card [OF EGNSSPositionValidityBits_enumerators_distinct]
  by (simp add: EGNSSPositionValidityBits_enumerators_def)

lemma EGNSSPositionValidityBits_val_single_bit: "\<exists>k<32. EGNSSPositionValidityBits_val c = 2 ^ k"
proof -
  define k :: nat where "k = (case c of
      GNSS_POSITION_LATITUDE_VALID \<Rightarrow> 0
    | GNSS_POSITION_LONGITUDE_VALID \<Rightarrow> 1
    | GNSS_POSITION_ALTITUDEMSL_VALID \<Rightarrow> 2
    | GNSS_POSITION_ALTITUDEELL_VALID \<Rightarrow> 3
    | GNSS_POSITION_HSPEED_VALID \<Rightarrow> 4
    | GNSS_POSITION_VSPEED_VALID \<Rightarrow> 5
    | GNSS_POSITION_HEADING_VALID \<Rightarrow> 6
    | GNSS_POSITION_PDOP_VALID \<Rightarrow> 7 | GNSS_POSITION_HDOP_VALID \<Rightarrow> 8
    | GNSS_POSITION_VDOP_VALID \<Rightarrow> 9
    | GNSS_POSITION_USAT_VALID \<Rightarrow> 10
    | GNSS_POSITION_TSAT_VALID \<Rightarrow> 11
    | GNSS_POSITION_VSAT_VALID \<Rightarrow> 12
    | GNSS_POSITION_SHPOS_VALID \<Rightarrow> 13
    | GNSS_POSITION_SALT_VALID \<Rightarrow> 14
    | GNSS_POSITION_SHSPEED_VALID \<Rightarrow> 15
    | GNSS_POSITION_SVSPEED_VALID \<Rightarrow> 16
    | GNSS_POSITION_SHEADING_VALID \<Rightarrow> 17
    | GNSS_POSITION_STAT_VALID \<Rightarrow> 18
    | GNSS_POSITION_TYPE_VALID \<Rightarrow> 19
    | GNSS_POSITION_ASYS_VALID \<Rightarrow> 20
    | GNSS_POSITION_USYS_VALID \<Rightarrow> 21
    | GNSS_POSITION_CORRAGE_VALID \<Rightarrow> 22)"
  have "k < 32 \<and> EGNSSPositionValidityBits_val c = 2 ^ k"
    unfolding k_def by (cases c) simp_all
  then show ?thesis by blast
qed

lemma EGNSSPositionValidityBits_val_inj: "inj EGNSSPositionValidityBits_val"
proof (rule injI)
  fix c d
  assume "EGNSSPositionValidityBits_val c = EGNSSPositionValidityBits_val d"
  then show "c = d" by (cases c; cases d) simp_all
qed

lemma EGNSSPositionValidityBits_val_AND:
  "EGNSSPositionValidityBits_val c AND EGNSSPositionValidityBits_val d = (if c = d then EGNSSPositionValidityBits_val c else 0)"
  by (cases c; cases d) simp_all

lemma EGNSSPositionValidityBits_val_nonzero: "EGNSSPositionValidityBits_val c \<noteq> 0"
  by (cases c) simp_all

lemma EGNSSPositionValidityBits_mask_test:
  "mask_test (or_mask EGNSSPositionValidityBits_val cs) (EGNSSPositionValidityBits_val c) = (c \<in> set cs)"
  by (rule or_mask_test [OF EGNSSPositionValidityBits_val_AND EGNSSPositionValidityBits_val_nonzero])

subsection \<open>The gating of the members\<close>

lemma EGNSSPositionValidityBits_field_inj: "inj EGNSSPositionValidityBits_field"
proof (rule injI)
  fix c d
  assume "EGNSSPositionValidityBits_field c = EGNSSPositionValidityBits_field d"
  then show "c = d" by (cases c; cases d) simp_all
qed

lemma EGNSSSatelliteDetailValidityBits_gated_inj: "inj EGNSSSatelliteDetailValidityBits_gated"
proof (rule injI)
  fix c d
  assume "EGNSSSatelliteDetailValidityBits_gated c = EGNSSSatelliteDetailValidityBits_gated d"
  then show "c = d" by (cases c; cases d) simp_all
qed

lemma EGNSSTimeValidityBits_fields_disjoint:
  "set (EGNSSTimeValidityBits_fields c) \<inter> set (EGNSSTimeValidityBits_fields d) =
     (if c = d then set (EGNSSTimeValidityBits_fields c) else {})"
  by (cases c; cases d) simp_all

lemma TGNSSPosition_field_UNIV: "UNIV = set TGNSSPosition_fields"
proof -
  have "f \<in> set TGNSSPosition_fields" for f
    by (cases f) (simp_all add: TGNSSPosition_fields_def)
  then show ?thesis by blast
qed

lemma TGNSSPosition_fields_distinct: "distinct TGNSSPosition_fields"
  by (simp add: TGNSSPosition_fields_def)

lemma TGNSSPosition_field_card: "card (UNIV :: TGNSSPosition_field set) = 25"
  unfolding TGNSSPosition_field_UNIV
  using distinct_card [OF TGNSSPosition_fields_distinct]
  by (simp add: TGNSSPosition_fields_def)

lemma EGNSSPositionValidityBits_field_range:
  "range EGNSSPositionValidityBits_field = UNIV - {Pos_timestamp, Pos_validityBits}"
proof -
  have "range EGNSSPositionValidityBits_field =
      set (map EGNSSPositionValidityBits_field EGNSSPositionValidityBits_enumerators)"
    unfolding EGNSSPositionValidityBits_UNIV by simp
  also have "\<dots> = set TGNSSPosition_fields - {Pos_timestamp, Pos_validityBits}"
    by (simp add: EGNSSPositionValidityBits_enumerators_def TGNSSPosition_fields_def) blast
  finally show ?thesis unfolding TGNSSPosition_field_UNIV .
qed

lemma EGNSSPositionValidityBits_val_consecutive:
  "map EGNSSPositionValidityBits_val EGNSSPositionValidityBits_enumerators =
     map (\<lambda>k. 2 ^ k) [0..<23]"
  by (simp add: EGNSSPositionValidityBits_enumerators_def upt_rec)

section \<open>The claims\<close>

subsection \<open>The flag enumerations\<close>

text \<open>
  Claim C1. Every enumerator of EGNSSFixType, EGNSSSystem and EGNSSSatelliteFlag has a
  value of its own (the value function is injective) and the value is a power of two,
  a single bit of the 32-bit mask. So the flags combine independently: the values of
  two different enumerators have no bit in common, and testing the or'ed mask of any
  list of enumerators against an enumerator tells exactly whether it is in the list.
\<close>

theorem flag_enumerations_distinct_single_bits:
  "inj EGNSSFixType_val \<and> inj EGNSSSystem_val \<and> inj EGNSSSatelliteFlag_val \<and>
   (\<forall>c. \<exists>k<32. EGNSSFixType_val c = 2 ^ k) \<and>
   (\<forall>c. \<exists>k<32. EGNSSSystem_val c = 2 ^ k) \<and>
   (\<forall>c. \<exists>k<32. EGNSSSatelliteFlag_val c = 2 ^ k) \<and>
   (\<forall>c d. EGNSSFixType_val c AND EGNSSFixType_val d =
      (if c = d then EGNSSFixType_val c else 0)) \<and>
   (\<forall>c d. EGNSSSystem_val c AND EGNSSSystem_val d =
      (if c = d then EGNSSSystem_val c else 0)) \<and>
   (\<forall>c d. EGNSSSatelliteFlag_val c AND EGNSSSatelliteFlag_val d =
      (if c = d then EGNSSSatelliteFlag_val c else 0)) \<and>
   (\<forall>cs c. mask_test (or_mask EGNSSFixType_val cs) (EGNSSFixType_val c) = (c \<in> set cs)) \<and>
   (\<forall>cs c. mask_test (or_mask EGNSSSystem_val cs) (EGNSSSystem_val c) = (c \<in> set cs)) \<and>
   (\<forall>cs c. mask_test (or_mask EGNSSSatelliteFlag_val cs) (EGNSSSatelliteFlag_val c) =
      (c \<in> set cs))"
  using EGNSSFixType_val_inj EGNSSSystem_val_inj EGNSSSatelliteFlag_val_inj
    EGNSSFixType_val_single_bit EGNSSSystem_val_single_bit EGNSSSatelliteFlag_val_single_bit
    EGNSSFixType_val_AND EGNSSSystem_val_AND EGNSSSatelliteFlag_val_AND
    EGNSSFixType_mask_test EGNSSSystem_mask_test EGNSSSatelliteFlag_mask_test
  by blast

text \<open>
  Claim C3, as the specification states it, asks for 32 flags in EGNSSFixType. The
  enumeration declares 14.
\<close>

theorem fix_type_has_not_32_flags:
  "length EGNSSFixType_enumerators = 14 \<and> card (UNIV :: EGNSSFixType set) \<noteq> 32"
  by (simp add: EGNSSFixType_card) (simp add: EGNSSFixType_enumerators_def)

text \<open>
  Claim C3, amended. EGNSSFixType is an open bit mask on a 32-bit field that declares
  14 flags, each a single bit of its own; the or of all of them is 0x3031F037, so 18
  of the 32 bit positions are left free. The flags are grouped into five clusters:
  used satellite data (single frequency, multi frequency, multi constellation),
  improvement techniques (PPP, integrity checked), used correction data (SBAS, DGNSS,
  RTK fixed, RTK float, SSR), position propagation (estimated, dead reckoning) and
  artificial fixes (manual, simulator mode).
\<close>

theorem fix_type_flags_and_groups:
  "card (UNIV :: EGNSSFixType set) = 14 \<and>
   inj EGNSSFixType_val \<and>
   (\<forall>c. \<exists>k<32. EGNSSFixType_val c = 2 ^ k) \<and>
   or_mask EGNSSFixType_val EGNSSFixType_enumerators = 0x3031F037 \<and>
   card (UNIV :: EGNSSFixType_group set) = 5 \<and>
   filter (\<lambda>c. EGNSSFixType_group_of c = UsedSatelliteData) EGNSSFixType_enumerators =
     [GNSS_FIX_TYPE_SINGLE_FREQUENCY, GNSS_FIX_TYPE_MULTI_FREQUENCY,
      GNSS_FIX_TYPE_MULTI_CONSTELLATION] \<and>
   filter (\<lambda>c. EGNSSFixType_group_of c = ImprovementTechniques) EGNSSFixType_enumerators =
     [GNSS_FIX_TYPE_PPP, GNSS_FIX_TYPE_INTEGRITY_CHECKED] \<and>
   filter (\<lambda>c. EGNSSFixType_group_of c = UsedCorrectionData) EGNSSFixType_enumerators =
     [GNSS_FIX_TYPE_SBAS, GNSS_FIX_TYPE_DGNSS, GNSS_FIX_TYPE_RTK_FIXED,
      GNSS_FIX_TYPE_RTK_FLOAT, GNSS_FIX_TYPE_SSR] \<and>
   filter (\<lambda>c. EGNSSFixType_group_of c = PositionPropagation) EGNSSFixType_enumerators =
     [GNSS_FIX_TYPE_ESTIMATED, GNSS_FIX_TYPE_DEAD_RECKONING] \<and>
   filter (\<lambda>c. EGNSSFixType_group_of c = ArtificialFix) EGNSSFixType_enumerators =
     [GNSS_FIX_TYPE_MANUAL, GNSS_FIX_TYPE_SIMULATOR_MODE]"
proof -
  have groups: "(UNIV :: EGNSSFixType_group set) =
      {UsedSatelliteData, ImprovementTechniques, UsedCorrectionData, PositionPropagation,
       ArtificialFix}"
  proof -
    have "g \<in> {UsedSatelliteData, ImprovementTechniques, UsedCorrectionData,
        PositionPropagation, ArtificialFix}" for g
      by (cases g) simp_all
    then show ?thesis by blast
  qed
  have five: "card (UNIV :: EGNSSFixType_group set) = 5"
    unfolding groups by simp
  have all: "or_mask EGNSSFixType_val EGNSSFixType_enumerators = 0x3031F037"
    by (simp add: or_mask_def EGNSSFixType_enumerators_def)
  show ?thesis
    using EGNSSFixType_card EGNSSFixType_val_inj EGNSSFixType_val_single_bit five all
    by (simp add: EGNSSFixType_enumerators_def)
qed

text \<open>
  Claim C4, as the specification states it, counts five SBAS systems. The enumeration
  declares six: WAAS, EGNOS, MSAS, QZSS-SAIF, SDCM and GAGAN.
\<close>

theorem sbas_systems_are_not_five:
  "filter EGNSSSystem_is_SBAS EGNSSSystem_enumerators =
     [GNSS_SYSTEM_SBAS_WAAS, GNSS_SYSTEM_SBAS_EGNOS, GNSS_SYSTEM_SBAS_MSAS,
      GNSS_SYSTEM_SBAS_QZSS_SAIF, GNSS_SYSTEM_SBAS_SDCM, GNSS_SYSTEM_SBAS_GAGAN] \<and>
   length (filter (\<lambda>s. 0x10000 \<le> EGNSSSystem_val s) EGNSSSystem_enumerators) \<noteq> 5"
  by (simp add: EGNSSSystem_enumerators_def word_le_nat_alt)

text \<open>
  Claim C4, amended. In EGNSSSystem the SBAS augmentation systems are exactly the
  enumerators with a value of at least 0x10000; there are six of them (WAAS, EGNOS,
  MSAS, QZSS-SAIF, SDCM, GAGAN); and every other enumerator has a value below 0x10000.
\<close>

theorem sbas_systems_from_0x10000:
  "(\<forall>s. EGNSSSystem_is_SBAS s = (0x10000 \<le> EGNSSSystem_val s)) \<and>
   (\<forall>s. EGNSSSystem_is_SBAS s \<or> EGNSSSystem_val s < 0x10000) \<and>
   Collect EGNSSSystem_is_SBAS =
     {GNSS_SYSTEM_SBAS_WAAS, GNSS_SYSTEM_SBAS_EGNOS, GNSS_SYSTEM_SBAS_MSAS,
      GNSS_SYSTEM_SBAS_QZSS_SAIF, GNSS_SYSTEM_SBAS_SDCM, GNSS_SYSTEM_SBAS_GAGAN} \<and>
   card (Collect EGNSSSystem_is_SBAS) = 6 \<and>
   card {s. 0x10000 \<le> EGNSSSystem_val s} = 6"
proof -
  have iff: "EGNSSSystem_is_SBAS s = (0x10000 \<le> EGNSSSystem_val s)" for s
    by (cases s) (simp_all add: word_le_nat_alt)
  have below: "EGNSSSystem_is_SBAS s \<or> EGNSSSystem_val s < 0x10000" for s
    by (cases s) (simp_all add: word_less_nat_alt)
  have "(s \<in> Collect EGNSSSystem_is_SBAS) =
      (s \<in> {GNSS_SYSTEM_SBAS_WAAS, GNSS_SYSTEM_SBAS_EGNOS, GNSS_SYSTEM_SBAS_MSAS,
        GNSS_SYSTEM_SBAS_QZSS_SAIF, GNSS_SYSTEM_SBAS_SDCM, GNSS_SYSTEM_SBAS_GAGAN})" for s
    by (cases s) simp_all
  then have set: "Collect EGNSSSystem_is_SBAS =
      {GNSS_SYSTEM_SBAS_WAAS, GNSS_SYSTEM_SBAS_EGNOS, GNSS_SYSTEM_SBAS_MSAS,
       GNSS_SYSTEM_SBAS_QZSS_SAIF, GNSS_SYSTEM_SBAS_SDCM, GNSS_SYSTEM_SBAS_GAGAN}"
    by blast
  have six: "card (Collect EGNSSSystem_is_SBAS) = 6"
    unfolding set by simp
  have same: "{s. 0x10000 \<le> EGNSSSystem_val s} = Collect EGNSSSystem_is_SBAS"
    using iff by blast
  show ?thesis
    using iff below set six same by simp
qed

subsection \<open>The validity bits\<close>

text \<open>
  Claim C2, as the specification states it, says that no two members of one record
  share a validity bit. In TGNSSTime they do: GNSS_TIME_TIME_VALID is the validity bit
  of hour, minute, second and ms, and GNSS_TIME_DATE_VALID that of year, month and day.
\<close>

theorem time_members_share_a_validity_bit:
  "Time_hour \<in> set (EGNSSTimeValidityBits_fields GNSS_TIME_TIME_VALID) \<and>
   Time_minute \<in> set (EGNSSTimeValidityBits_fields GNSS_TIME_TIME_VALID) \<and>
   Time_hour \<noteq> Time_minute \<and>
   Time_month \<in> set (EGNSSTimeValidityBits_fields GNSS_TIME_DATE_VALID) \<and>
   Time_day \<in> set (EGNSSTimeValidityBits_fields GNSS_TIME_DATE_VALID) \<and>
   Time_month \<noteq> Time_day"
  by simp

text \<open>
  Claim C2, amended. In each of the three validity enumerations (of TGNSSTime,
  TGNSSSatelliteDetail and TGNSSPosition) every enumerator is a single bit and no two
  enumerators share a bit position. In TGNSSSatelliteDetail and TGNSSPosition
  different validity bits stand for different members (or different flags of
  statusBits), so no two members share a bit. In TGNSSTime a validity bit stands for a
  group of members, and the groups of different bits are disjoint: no member has two
  validity bits.
\<close>

theorem validity_bits_unique_per_enumeration:
  "inj EGNSSTimeValidityBits_val \<and>
   inj EGNSSSatelliteDetailValidityBits_val \<and>
   inj EGNSSPositionValidityBits_val \<and>
   (\<forall>c. \<exists>k<32. EGNSSTimeValidityBits_val c = 2 ^ k) \<and>
   (\<forall>c. \<exists>k<32. EGNSSSatelliteDetailValidityBits_val c = 2 ^ k) \<and>
   (\<forall>c. \<exists>k<32. EGNSSPositionValidityBits_val c = 2 ^ k) \<and>
   (\<forall>c d. EGNSSTimeValidityBits_val c AND EGNSSTimeValidityBits_val d =
      (if c = d then EGNSSTimeValidityBits_val c else 0)) \<and>
   (\<forall>c d. EGNSSSatelliteDetailValidityBits_val c AND EGNSSSatelliteDetailValidityBits_val d =
      (if c = d then EGNSSSatelliteDetailValidityBits_val c else 0)) \<and>
   (\<forall>c d. EGNSSPositionValidityBits_val c AND EGNSSPositionValidityBits_val d =
      (if c = d then EGNSSPositionValidityBits_val c else 0)) \<and>
   inj EGNSSSatelliteDetailValidityBits_gated \<and>
   inj EGNSSPositionValidityBits_field \<and>
   (\<forall>c d. set (EGNSSTimeValidityBits_fields c) \<inter> set (EGNSSTimeValidityBits_fields d) =
      (if c = d then set (EGNSSTimeValidityBits_fields c) else {}))"
  using EGNSSTimeValidityBits_val_inj EGNSSSatelliteDetailValidityBits_val_inj
    EGNSSPositionValidityBits_val_inj
    EGNSSTimeValidityBits_val_single_bit EGNSSSatelliteDetailValidityBits_val_single_bit
    EGNSSPositionValidityBits_val_single_bit
    EGNSSTimeValidityBits_val_AND EGNSSSatelliteDetailValidityBits_val_AND
    EGNSSPositionValidityBits_val_AND
    EGNSSSatelliteDetailValidityBits_gated_inj EGNSSPositionValidityBits_field_inj
    EGNSSTimeValidityBits_fields_disjoint
  by blast

text \<open>
  Claim C9. EGNSSPositionValidityBits has exactly 23 enumerators; in the order of
  their declaration their values are 2^0, 2^1, ..., 2^22, the bit positions 0 to 22
  without a gap. TGNSSPosition has 25 members; the enumerators stand one to one for
  the 23 members other than timestamp and validityBits.
\<close>

theorem position_validity_bits_match_members:
  "length EGNSSPositionValidityBits_enumerators = 23 \<and>
   distinct EGNSSPositionValidityBits_enumerators \<and>
   set EGNSSPositionValidityBits_enumerators = UNIV \<and>
   card (UNIV :: EGNSSPositionValidityBits set) = 23 \<and>
   map EGNSSPositionValidityBits_val EGNSSPositionValidityBits_enumerators =
     map (\<lambda>k. 2 ^ k) [0..<23] \<and>
   card (UNIV :: TGNSSPosition_field set) = 25 \<and>
   inj EGNSSPositionValidityBits_field \<and>
   range EGNSSPositionValidityBits_field = UNIV - {Pos_timestamp, Pos_validityBits} \<and>
   card (UNIV - {Pos_timestamp, Pos_validityBits}) = 23"
proof -
  have len: "length EGNSSPositionValidityBits_enumerators = 23"
    by (simp add: EGNSSPositionValidityBits_enumerators_def)
  have "card (range EGNSSPositionValidityBits_field) = card (UNIV :: EGNSSPositionValidityBits set)"
    by (rule card_image [OF EGNSSPositionValidityBits_field_inj])
  then have others: "card (UNIV - {Pos_timestamp, Pos_validityBits}) = 23"
    by (simp add: EGNSSPositionValidityBits_field_range EGNSSPositionValidityBits_card)
  show ?thesis
    using len EGNSSPositionValidityBits_enumerators_distinct
      EGNSSPositionValidityBits_UNIV [symmetric] EGNSSPositionValidityBits_card
      EGNSSPositionValidityBits_val_consecutive TGNSSPosition_field_card
      EGNSSPositionValidityBits_field_inj EGNSSPositionValidityBits_field_range others
    by blast
qed

text \<open>
  Claim C10. The member statusBits of a satellite detail has no validity bit as a
  whole. Its flag GNSS_SATELLITE_USED has the validity bit GNSS_SATELLITE_USED_VALID
  and its flag GNSS_SATELLITE_EPHEMERIS_AVAILABLE the validity bit
  GNSS_SATELLITE_EPHEMERIS_AVAILABLE_VALID; the two are different single bits. A
  validity mask built from a list of validity bits marks exactly the bits of the list
  valid, so there is a satellite detail in which the USED flag is valid and the
  EPHEMERIS_AVAILABLE flag is not, and one the other way round.
\<close>

theorem status_flags_gated_separately:
  "EGNSSSatelliteDetailValidityBits_gated GNSS_SATELLITE_USED_VALID =
     StatusFlag GNSS_SATELLITE_USED \<and>
   EGNSSSatelliteDetailValidityBits_gated GNSS_SATELLITE_EPHEMERIS_AVAILABLE_VALID =
     StatusFlag GNSS_SATELLITE_EPHEMERIS_AVAILABLE \<and>
   (\<forall>c. EGNSSSatelliteDetailValidityBits_gated c \<noteq> Member Sat_statusBits) \<and>
   EGNSSSatelliteDetailValidityBits_val GNSS_SATELLITE_USED_VALID \<noteq>
     EGNSSSatelliteDetailValidityBits_val GNSS_SATELLITE_EPHEMERIS_AVAILABLE_VALID \<and>
   EGNSSSatelliteDetailValidityBits_val GNSS_SATELLITE_USED_VALID AND
     EGNSSSatelliteDetailValidityBits_val GNSS_SATELLITE_EPHEMERIS_AVAILABLE_VALID = 0 \<and>
   (\<forall>d cs c. TGNSSSatelliteDetail_valid
      (d\<lparr>TGNSSSatelliteDetail.validityBits := or_mask EGNSSSatelliteDetailValidityBits_val cs\<rparr>)
      c = (c \<in> set cs)) \<and>
   (\<exists>d. TGNSSSatelliteDetail_valid d GNSS_SATELLITE_USED_VALID \<and>
      \<not> TGNSSSatelliteDetail_valid d GNSS_SATELLITE_EPHEMERIS_AVAILABLE_VALID) \<and>
   (\<exists>d. \<not> TGNSSSatelliteDetail_valid d GNSS_SATELLITE_USED_VALID \<and>
      TGNSSSatelliteDetail_valid d GNSS_SATELLITE_EPHEMERIS_AVAILABLE_VALID)"
proof -
  have whole: "EGNSSSatelliteDetailValidityBits_gated c \<noteq> Member Sat_statusBits" for c
    by (cases c) simp_all
  have built: "TGNSSSatelliteDetail_valid
      (d\<lparr>TGNSSSatelliteDetail.validityBits := or_mask EGNSSSatelliteDetailValidityBits_val cs\<rparr>)
      c = (c \<in> set cs)" for d cs c
    by (simp add: TGNSSSatelliteDetail_valid_def EGNSSSatelliteDetailValidityBits_mask_test)
  have used: "TGNSSSatelliteDetail_valid
        (tracked_satellite\<lparr>TGNSSSatelliteDetail.validityBits := 0x00000020\<rparr>)
        GNSS_SATELLITE_USED_VALID \<and>
      \<not> TGNSSSatelliteDetail_valid
        (tracked_satellite\<lparr>TGNSSSatelliteDetail.validityBits := 0x00000020\<rparr>)
        GNSS_SATELLITE_EPHEMERIS_AVAILABLE_VALID"
    by (simp add: TGNSSSatelliteDetail_valid_def mask_test_def)
  have eph: "\<not> TGNSSSatelliteDetail_valid
        (tracked_satellite\<lparr>TGNSSSatelliteDetail.validityBits := 0x00000040\<rparr>)
        GNSS_SATELLITE_USED_VALID \<and>
      TGNSSSatelliteDetail_valid
        (tracked_satellite\<lparr>TGNSSSatelliteDetail.validityBits := 0x00000040\<rparr>)
        GNSS_SATELLITE_EPHEMERIS_AVAILABLE_VALID"
    by (simp add: TGNSSSatelliteDetail_valid_def mask_test_def)
  show ?thesis
    using whole built used eph by (simp del: One_nat_def) blast
qed

subsection \<open>The documented value ranges\<close>

text \<open>
  Claim C5. A time that keeps the value ranges documented on the members of TGNSSTime
  has a month between 0 and 11, a day between 1 and 31 and a second between 0 and 60,
  and its second is 60 only in a leap second. (The members are unsigned, so the lower
  bound 0 holds of any value.)
\<close>

theorem time_ranges_hold:
  "TGNSSTime_ranges leap t \<Longrightarrow>
     0 \<le> unat (month t) \<and> unat (month t) \<le> 11 \<and>
     1 \<le> unat (day t) \<and> unat (day t) \<le> 31 \<and>
     0 \<le> unat (second t) \<and> unat (second t) \<le> 60 \<and>
     (unat (second t) = 60 \<longrightarrow> leap)"
  by (auto simp add: TGNSSTime_ranges_def split: if_splits)

text \<open>
  The ranges are kept by the leap second of 30 June 2015, and they are a restriction
  the types of the members do not make: a month of 12 fits into the \<^verbatim>\<open>uint8_t\<close>.
\<close>

lemma time_ranges_not_in_the_types:
  "\<not> TGNSSTime_ranges leap (leap_second_time\<lparr>month := 12\<rparr>)"
  by (simp add: TGNSSTime_ranges_def leap_second_time_def)

theorem time_ranges_hold_at_leap_second:
  "TGNSSTime_ranges True leap_second_time \<and>
   unat (month leap_second_time) \<le> 11 \<and>
   1 \<le> unat (day leap_second_time) \<and> unat (day leap_second_time) \<le> 31 \<and>
   unat (second leap_second_time) = 60"
proof -
  have h: "TGNSSTime_ranges True leap_second_time"
    by (simp add: TGNSSTime_ranges_def leap_second_time_def)
  have "unat (second leap_second_time) = 60"
    by (simp add: leap_second_time_def)
  then show ?thesis
    using h time_ranges_hold [OF h] by simp
qed

text \<open>
  Claim C6. A satellite detail that keeps the value ranges documented on the members
  of TGNSSSatelliteDetail has an azimuth between 0 and 359, an elevation between 0 and
  90, a CNo between 0 and 99, which is 0 when the satellite is not tracked, and a
  posResidual between -999 and 999.
\<close>

theorem satellite_detail_ranges_hold:
  "TGNSSSatelliteDetail_ranges tracking d \<Longrightarrow>
     0 \<le> unat (azimuth d) \<and> unat (azimuth d) \<le> 359 \<and>
     0 \<le> unat (elevation d) \<and> unat (elevation d) \<le> 90 \<and>
     0 \<le> unat (CNo d) \<and> unat (CNo d) \<le> 99 \<and>
     (\<not> tracking \<longrightarrow> unat (CNo d) = 0) \<and>
     - 999 \<le> sint (posResidual d) \<and> sint (posResidual d) \<le> 999"
  by (auto simp add: TGNSSSatelliteDetail_ranges_def)

text \<open>
  The ranges are kept by a satellite at their upper ends, and they are a restriction
  the types of the members do not make: an azimuth of 360 fits into the \<^verbatim>\<open>uint16_t\<close>.
\<close>

lemma satellite_detail_ranges_not_in_the_types:
  "\<not> TGNSSSatelliteDetail_ranges tracking (tracked_satellite\<lparr>azimuth := 360\<rparr>)"
  by (simp add: TGNSSSatelliteDetail_ranges_def tracked_satellite_def)

theorem satellite_detail_ranges_hold_at_bounds:
  "TGNSSSatelliteDetail_ranges True tracked_satellite \<and>
   unat (azimuth tracked_satellite) = 359 \<and>
   unat (elevation tracked_satellite) = 90 \<and>
   unat (CNo tracked_satellite) = 99 \<and>
   sint (posResidual tracked_satellite) = - 999"
proof -
  have h: "TGNSSSatelliteDetail_ranges True tracked_satellite"
    by (simp add: TGNSSSatelliteDetail_ranges_def tracked_satellite_def)
  have "unat (azimuth tracked_satellite) = 359 \<and> unat (elevation tracked_satellite) = 90 \<and>
      unat (CNo tracked_satellite) = 99 \<and> sint (posResidual tracked_satellite) = - 999"
    by (simp add: tracked_satellite_def)
  then show ?thesis
    using h satellite_detail_ranges_hold [OF h] by simp
qed

text \<open>
  Claim C7, as the specification states it, bounds the heading of a position below
  360. The header only rules out negative values: a position with a heading of 360.0
  keeps what the header documents and is outside the interval [0, 360).
\<close>

theorem heading_360_keeps_the_documented_range:
  "float_valof (heading heading_360_position) = Some 360 \<and>
   TGNSSPosition_valid heading_360_position GNSS_POSITION_HEADING_VALID \<and>
   TGNSSPosition_heading_documented heading_360_position \<and>
   \<not> spec_heading_in_range heading_360_position"
  by (simp add: TGNSSPosition_heading_documented_def spec_heading_in_range_def
      TGNSSPosition_valid_def mask_test_def
      heading_360_position_def TGNSSPosition_zeroed_def float_defs)

text \<open>
  Claim C7, amended. A position that keeps what the header documents on heading has a
  heading that is a number (no NaN, no infinity) and is not negative. The header
  documents no upper bound.
\<close>

theorem heading_is_not_negative:
  "TGNSSPosition_heading_documented p \<Longrightarrow> \<exists>h. float_valof (heading p) = Some h \<and> 0 \<le> h"
  by (simp add: TGNSSPosition_heading_documented_def split: option.splits)

text \<open>A heading of 270 degrees (west) keeps what the header documents.\<close>

theorem heading_is_not_negative_at_270:
  "TGNSSPosition_heading_documented heading_270_position \<and>
   float_valof (heading heading_270_position) = Some 270"
proof -
  have h: "TGNSSPosition_heading_documented heading_270_position"
    by (simp add: TGNSSPosition_heading_documented_def
        heading_270_position_def TGNSSPosition_zeroed_def float_defs)
  have "float_valof (heading heading_270_position) = Some 270"
    by (simp add: heading_270_position_def TGNSSPosition_zeroed_def float_defs)
  then show ?thesis
    using h heading_is_not_negative [OF h] by simp
qed

text \<open>
  Claim C8. The identity pdop^2 = hdop^2 + vdop^2 is a note in the comment of pdop;
  the three members are independent floats. There is a position whose validity bits of
  pdop, hdop and vdop are all set and whose three values, 1.0 each, break the
  identity.
\<close>

theorem dop_identity_not_enforced:
  "\<exists>p. TGNSSPosition_valid p GNSS_POSITION_PDOP_VALID \<and>
       TGNSSPosition_valid p GNSS_POSITION_HDOP_VALID \<and>
       TGNSSPosition_valid p GNSS_POSITION_VDOP_VALID \<and>
       float_valof (pdop p) = Some 1 \<and>
       float_valof (hdop p) = Some 1 \<and>
       float_valof (vdop p) = Some 1 \<and>
       \<not> TGNSSPosition_dop_identity p"
proof -
  have "TGNSSPosition_valid unit_dop_position GNSS_POSITION_PDOP_VALID \<and>
      TGNSSPosition_valid unit_dop_position GNSS_POSITION_HDOP_VALID \<and>
      TGNSSPosition_valid unit_dop_position GNSS_POSITION_VDOP_VALID \<and>
      float_valof (pdop unit_dop_position) = Some 1 \<and>
      float_valof (hdop unit_dop_position) = Some 1 \<and>
      float_valof (vdop unit_dop_position) = Some 1 \<and>
      \<not> TGNSSPosition_dop_identity unit_dop_position"
    by (simp add: TGNSSPosition_valid_def mask_test_def TGNSSPosition_dop_identity_def
        unit_dop_position_def TGNSSPosition_zeroed_def float_defs)
  then show ?thesis by blast
qed

end
